theory Spec2Isabelle
  imports Main
begin

section \<open>Element types, errors and heap blocks\<close>

text \<open>
  The container is a template over \<open>Type\<close>. What the code needs of an element type is
  collected in a record: the value of \<open>Type()\<close>, the value a slot holds after
  \<open>new Type[n]\<close> (for a class type the default-constructed value, for a scalar type
  whatever the allocator left there), and the state an object is left in after
  \<open>std::move\<close> took its value (for \<open>int\<close> the identity, for the class \<open>X\<close> of
  main.cpp the constant 0).
\<close>

record 'a value_type =
  default_value :: 'a
  new_value :: 'a
  moved_from :: "'a \<Rightarrow> 'a"

text \<open>The class \<open>X\<close> of main.cpp, as the value of its field \<open>x_\<close>: \<open>X()\<close> is \<open>X(5)\<close>,
  and both move operations do \<open>x_ = exchange(other.x_, 0)\<close>.\<close>

definition X :: "nat value_type" where
  "X = \<lparr>default_value = 5, new_value = 5, moved_from = (\<lambda>_. 0)\<rparr>"

text \<open>
  Everything that ends a call without its result is a value: the exception of \<open>At\<close>, a
  failed \<open>assert\<close> (the model is the debug build, where \<open>assert\<close> is active), and the
  ways the code can leave defined behaviour: touching a slot outside the heap block it
  indexes, handing an algorithm a range whose end lies before its start, taking the
  distance between pointers into different blocks, and reading an object in a block that
  has been released.
\<close>

datatype error =
  OutOfRange | AssertionFailed | BufferOverrun | InvalidRange | ForeignIterator | UseAfterFree

definition and_then :: "error + 'a \<Rightarrow> ('a \<Rightarrow> error + 'b) \<Rightarrow> error + 'b" where
  "and_then m f = (case m of Inl e \<Rightarrow> Inl e | Inr x \<Rightarrow> f x)"

text \<open>
  A heap block is the list of its slots; its length is the number of slots that
  \<open>new Type[n]\<close> allocated, and an allocation always succeeds. \<open>size_t\<close> is \<open>nat\<close>: every
  \<open>size_\<close> and \<open>capacity_\<close> the code computes is the length of a block or at most twice
  one, and \<open>--size_\<close> is only reached with \<open>size_ > 0\<close>, so no computation wraps.
\<close>

definition load :: "'a list \<Rightarrow> nat \<Rightarrow> error + 'a" where
  "load cs i = (if i < length cs then Inr (cs ! i) else Inl BufferOverrun)"

definition store :: "'a list \<Rightarrow> nat \<Rightarrow> 'a \<Rightarrow> error + 'a list" where
  "store cs i x = (if i < length cs then Inr (cs[i := x]) else Inl BufferOverrun)"

subsection \<open>The algorithms of the standard library the container calls\<close>

text \<open>
  A pointer range \<open>[first, lst)\<close> into a block is the block and two indices. Each
  algorithm is the loop of its reference implementation, run \<open>lst - first\<close> times; a range
  with \<open>lst\<close> before \<open>first\<close> is not a range.
\<close>

fun fill_n :: "nat \<Rightarrow> 'a list \<Rightarrow> nat \<Rightarrow> 'a \<Rightarrow> error + 'a list" where
  "fill_n 0 cs first x = Inr cs"
| "fill_n (Suc n) cs first x =
     and_then (store cs first x) (\<lambda>cs'. fill_n n cs' (first + 1) x)"

definition std_fill :: "'a list \<Rightarrow> nat \<Rightarrow> nat \<Rightarrow> 'a \<Rightarrow> error + 'a list" where
  "std_fill cs first lst x =
     (if lst < first then Inl InvalidRange else fill_n (lst - first) cs first x)"

fun copy_n :: "nat \<Rightarrow> 'a list \<Rightarrow> nat \<Rightarrow> 'a list \<Rightarrow> nat \<Rightarrow> error + 'a list" where
  "copy_n 0 src first dst d_first = Inr dst"
| "copy_n (Suc n) src first dst d_first =
     and_then (load src first) (\<lambda>x.
     and_then (store dst d_first x) (\<lambda>dst'.
       copy_n n src (first + 1) dst' (d_first + 1)))"

text \<open>\<open>std::copy(first, lst, d_first)\<close> from one block into another; the result is the
  destination block.\<close>

definition std_copy :: "'a list \<Rightarrow> nat \<Rightarrow> nat \<Rightarrow> 'a list \<Rightarrow> nat \<Rightarrow> error + 'a list" where
  "std_copy src first lst dst d_first =
     (if lst < first then Inl InvalidRange else copy_n (lst - first) src first dst d_first)"

fun move_n ::
  "'a value_type \<Rightarrow> nat \<Rightarrow> 'a list \<Rightarrow> nat \<Rightarrow> 'a list \<Rightarrow> nat \<Rightarrow> error + ('a list \<times> 'a list)" where
  "move_n T 0 src first dst d_first = Inr (src, dst)"
| "move_n T (Suc n) src first dst d_first =
     and_then (load src first) (\<lambda>x.
     and_then (store dst d_first x) (\<lambda>dst'.
       move_n T n (src[first := moved_from T x]) (first + 1) dst' (d_first + 1)))"

text \<open>\<open>std::move(first, lst, d_first)\<close> from one block into another: each source slot is
  left moved-from. The result is the source block and the destination block.\<close>

definition std_move ::
  "'a value_type \<Rightarrow> 'a list \<Rightarrow> nat \<Rightarrow> nat \<Rightarrow> 'a list \<Rightarrow> nat \<Rightarrow> error + ('a list \<times> 'a list)" where
  "std_move T src first lst dst d_first =
     (if lst < first then Inl InvalidRange else move_n T (lst - first) src first dst d_first)"

text \<open>\<open>std::copy_backward(first, lst, d_lst)\<close> and \<open>std::move_backward\<close> inside one
  block: \<open>while (first != lst) *(--d_lst) = *(--lst)\<close>.\<close>

fun copy_backward_n :: "nat \<Rightarrow> 'a list \<Rightarrow> nat \<Rightarrow> nat \<Rightarrow> error + 'a list" where
  "copy_backward_n 0 cs lst d_lst = Inr cs"
| "copy_backward_n (Suc n) cs lst d_lst =
     and_then (load cs (lst - 1)) (\<lambda>x.
     and_then (store cs (d_lst - 1) x) (\<lambda>cs'.
       copy_backward_n n cs' (lst - 1) (d_lst - 1)))"

definition std_copy_backward :: "'a list \<Rightarrow> nat \<Rightarrow> nat \<Rightarrow> nat \<Rightarrow> error + 'a list" where
  "std_copy_backward cs first lst d_lst =
     (if lst < first then Inl InvalidRange else copy_backward_n (lst - first) cs lst d_lst)"

fun move_backward_n :: "'a value_type \<Rightarrow> nat \<Rightarrow> 'a list \<Rightarrow> nat \<Rightarrow> nat \<Rightarrow> error + 'a list" where
  "move_backward_n T 0 cs lst d_lst = Inr cs"
| "move_backward_n T (Suc n) cs lst d_lst =
     and_then (load cs (lst - 1)) (\<lambda>x.
     and_then (store (cs[lst - 1 := moved_from T x]) (d_lst - 1) x) (\<lambda>cs'.
       move_backward_n T n cs' (lst - 1) (d_lst - 1)))"

definition std_move_backward ::
  "'a value_type \<Rightarrow> 'a list \<Rightarrow> nat \<Rightarrow> nat \<Rightarrow> nat \<Rightarrow> error + 'a list" where
  "std_move_backward T cs first lst d_lst =
     (if lst < first then Inl InvalidRange
      else move_backward_n T (lst - first) cs lst d_lst)"

text \<open>\<open>std::equal(first1, lst1, first2)\<close>: the three-iterator form, which needs as many
  elements in the second sequence as the first range has, whether or not a pair that
  differs comes before the end of a block. The loop itself stops at the first pair that
  differs.\<close>

fun equal_n :: "nat \<Rightarrow> 'a list \<Rightarrow> nat \<Rightarrow> 'a list \<Rightarrow> nat \<Rightarrow> error + bool" where
  "equal_n 0 a first1 b first2 = Inr True"
| "equal_n (Suc n) a first1 b first2 =
     and_then (load a first1) (\<lambda>x.
     and_then (load b first2) (\<lambda>y.
       if x = y then equal_n n a (first1 + 1) b (first2 + 1) else Inr False))"

definition std_equal :: "'a list \<Rightarrow> nat \<Rightarrow> nat \<Rightarrow> 'a list \<Rightarrow> nat \<Rightarrow> error + bool" where
  "std_equal a first1 lst1 b first2 =
     (if lst1 < first1 then Inl InvalidRange
      else if length a < lst1 then Inl BufferOverrun
      else if length b < first2 + (lst1 - first1) then Inl BufferOverrun
      else equal_n (lst1 - first1) a first1 b first2)"


text \<open>The private member \<open>fill(first, last)\<close> of the container:
  \<open>for (; first != last; ++first) *first = std::move(Type())\<close>. When \<open>last\<close> is before
  \<open>first\<close> the loop never meets it and writes until it leaves the block.\<close>

definition fill :: "'a value_type \<Rightarrow> 'a list \<Rightarrow> nat \<Rightarrow> nat \<Rightarrow> error + 'a list" where
  "fill T cs first lst =
     (if lst < first then Inl BufferOverrun else fill_n (lst - first) cs first (default_value T))"

section \<open>ArrayPtr\<close>

text \<open>
  The member \<open>raw_ptr_\<close> is \<open>raw_ptr_m\<close> here, and so for every member (no constant's
  name ends in an underscore). It is the address \<open>new Type[size]\<close> returned, or \<open>None\<close>
  for \<open>nullptr\<close>. The owner is exclusive (copying is deleted), so the block the pointer
  owns is held beside it. The address is chosen by the allocator: every operation that
  allocates takes it as its argument \<open>p\<close>. A \<open>Type*\<close> is a block address and an offset in
  elements; \<open>begin()\<close> is offset 0 of the vector's block and \<open>end()\<close> is offset \<open>size_\<close>.
\<close>

type_synonym addr = nat

datatype pointer = Pointer (block: "addr option") (offset: nat)

record 'a ArrayPtr =
  raw_ptr_m :: "addr option"
  slots :: "'a list"

definition ArrayPtr_default :: "'a ArrayPtr" where
  "ArrayPtr_default = \<lparr>raw_ptr_m = None, slots = []\<rparr>"

definition ArrayPtr_new :: "'a value_type \<Rightarrow> addr \<Rightarrow> nat \<Rightarrow> 'a ArrayPtr" where
  "ArrayPtr_new T p n =
     (if n = 0 then \<lparr>raw_ptr_m = None, slots = []\<rparr>
      else \<lparr>raw_ptr_m = Some p, slots = replicate n (new_value T)\<rparr>)"

definition ArrayPtr_bool :: "'a ArrayPtr \<Rightarrow> bool" where
  "ArrayPtr_bool a = (if raw_ptr_m a \<noteq> None then True else False)"

definition Get :: "'a ArrayPtr \<Rightarrow> pointer" where
  "Get a = Pointer (raw_ptr_m a) 0"

definition ArrayPtr_swap :: "'a ArrayPtr \<Rightarrow> 'a ArrayPtr \<Rightarrow> 'a ArrayPtr \<times> 'a ArrayPtr" where
  "ArrayPtr_swap a other = (other, a)"

section \<open>SimpleVector\<close>

record 'a SimpleVector =
  items_m :: "'a ArrayPtr"
  size_m :: nat
  capacity_m :: nat

definition GetSize :: "'a SimpleVector \<Rightarrow> nat" where
  "GetSize v = size_m v"

definition GetCapacity :: "'a SimpleVector \<Rightarrow> nat" where
  "GetCapacity v = capacity_m v"

definition IsEmpty :: "'a SimpleVector \<Rightarrow> bool" where
  "IsEmpty v = (size_m v = 0)"

definition begin_it :: "'a SimpleVector \<Rightarrow> pointer" where
  "begin_it v = Get (items_m v)"

definition end_it :: "'a SimpleVector \<Rightarrow> pointer" where
  "end_it v = Pointer (block (Get (items_m v))) (offset (Get (items_m v)) + size_m v)"

text \<open>The slots of the vector's block, and the vector with its block's slots replaced
  (a write through \<open>items_[i]\<close> or through an iterator).\<close>

definition cells :: "'a SimpleVector \<Rightarrow> 'a list" where
  "cells v = slots (items_m v)"

definition with_cells :: "'a SimpleVector \<Rightarrow> 'a list \<Rightarrow> 'a SimpleVector" where
  "with_cells v cs = v\<lparr>items_m := (items_m v)\<lparr>slots := cs\<rparr>\<rparr>"

subsection \<open>Construction and assignment\<close>

definition SimpleVector_default :: "'a SimpleVector" where
  "SimpleVector_default = \<lparr>items_m = ArrayPtr_default, size_m = 0, capacity_m = 0\<rparr>"

definition SimpleVector_fill ::
  "'a value_type \<Rightarrow> addr \<Rightarrow> nat \<Rightarrow> 'a \<Rightarrow> error + 'a SimpleVector" where
  "SimpleVector_fill T p n val =
     (let this = \<lparr>items_m = ArrayPtr_new T p n, size_m = n, capacity_m = n\<rparr> in
      and_then (std_fill (cells this) 0 n val) (\<lambda>cs. Inr (with_cells this cs)))"

definition SimpleVector_sized :: "'a value_type \<Rightarrow> addr \<Rightarrow> nat \<Rightarrow> error + 'a SimpleVector" where
  "SimpleVector_sized T p n = SimpleVector_fill T p n (default_value T)"

definition SimpleVector_init ::
  "'a value_type \<Rightarrow> addr \<Rightarrow> 'a list \<Rightarrow> error + 'a SimpleVector" where
  "SimpleVector_init T p init =
     (let this = \<lparr>items_m = ArrayPtr_new T p (length init), size_m = length init,
                  capacity_m = length init\<rparr> in
      and_then (std_copy init 0 (length init) (cells this) 0) (\<lambda>cs. Inr (with_cells this cs)))"

text \<open>The copy constructor initialises \<open>items_\<close> and \<open>size_\<close>; \<open>capacity_\<close> keeps its
  default member initialiser, 0.\<close>

definition SimpleVector_copy ::
  "'a value_type \<Rightarrow> addr \<Rightarrow> 'a SimpleVector \<Rightarrow> error + 'a SimpleVector" where
  "SimpleVector_copy T p other =
     (let this = \<lparr>items_m = ArrayPtr_new T p (capacity_m other), size_m = size_m other,
                  capacity_m = 0\<rparr> in
      and_then (std_copy (cells other) 0 (size_m other) (cells this) 0) (\<lambda>cs.
        Inr (with_cells this cs)))"

text \<open>\<open>swap\<close> gives the two vectors after the exchange, \<open>*this\<close> first.\<close>

definition SimpleVector_swap ::
  "'a SimpleVector \<Rightarrow> 'a SimpleVector \<Rightarrow> 'a SimpleVector \<times> 'a SimpleVector" where
  "SimpleVector_swap this other =
     (let (i, oi) = ArrayPtr_swap (items_m this) (items_m other) in
      (\<lparr>items_m = i, size_m = size_m other, capacity_m = capacity_m other\<rparr>,
       \<lparr>items_m = oi, size_m = size_m this, capacity_m = capacity_m this\<rparr>))"

text \<open>The move constructor allocates a block of \<open>other.capacity_\<close> slots for the new
  object, whose \<open>size_\<close> and \<open>capacity_\<close> are 0, and swaps. The result is the new vector and
  the source after the call.\<close>

definition SimpleVector_move ::
  "'a value_type \<Rightarrow> addr \<Rightarrow> 'a SimpleVector \<Rightarrow> 'a SimpleVector \<times> 'a SimpleVector" where
  "SimpleVector_move T p other =
     SimpleVector_swap \<lparr>items_m = ArrayPtr_new T p (capacity_m other), size_m = 0, capacity_m = 0\<rparr>
       other"

text \<open>Both assignment operators are guarded by \<open>&items_ != &rhs.items_\<close>, a comparison of
  the two objects' addresses: \<open>same\<close> says that \<open>rhs\<close> is \<open>*this\<close>.\<close>

definition copy_assign ::
  "'a value_type \<Rightarrow> addr \<Rightarrow> bool \<Rightarrow> 'a SimpleVector \<Rightarrow> 'a SimpleVector \<Rightarrow> error + 'a SimpleVector" where
  "copy_assign T p same this rhs =
     (if \<not> same then
        (let temp = ArrayPtr_new T p (GetCapacity rhs) in
         and_then (std_copy (cells rhs) 0 (size_m rhs) (slots temp) 0) (\<lambda>cs.
           Inr \<lparr>items_m = temp\<lparr>slots := cs\<rparr>, size_m = GetSize rhs, capacity_m = GetCapacity rhs\<rparr>))
      else Inr this)"

text \<open>Move assignment gives \<open>*this\<close> and \<open>rhs\<close> after the call: the elements of \<open>rhs\<close> are
  moved out one by one, and nothing else of \<open>rhs\<close> is written.\<close>

definition move_assign ::
  "'a value_type \<Rightarrow> addr \<Rightarrow> bool \<Rightarrow> 'a SimpleVector \<Rightarrow> 'a SimpleVector
     \<Rightarrow> error + ('a SimpleVector \<times> 'a SimpleVector)" where
  "move_assign T p same this rhs =
     (if \<not> same then
        (let temp = ArrayPtr_new T p (GetCapacity rhs) in
         and_then (std_move T (cells rhs) 0 (size_m rhs) (slots temp) 0) (\<lambda>(src, dst).
           Inr (\<lparr>items_m = temp\<lparr>slots := dst\<rparr>, size_m = GetSize rhs, capacity_m = GetCapacity rhs\<rparr>,
                with_cells rhs src)))
      else Inr (this, rhs))"

subsection \<open>Element access\<close>

text \<open>\<open>operator[]\<close> is unchecked: a read and a write through the reference it returns.\<close>

definition subscript :: "'a SimpleVector \<Rightarrow> nat \<Rightarrow> error + 'a" where
  "subscript v index = load (cells v) index"

definition subscript_assign :: "'a SimpleVector \<Rightarrow> nat \<Rightarrow> 'a \<Rightarrow> error + 'a SimpleVector" where
  "subscript_assign v index x =
     and_then (store (cells v) index x) (\<lambda>cs. Inr (with_cells v cs))"

text \<open>\<open>At\<close> gives the reference it returns (or the exception) and the vector after the
  call; the const overload has the same body.\<close>

definition At :: "'a SimpleVector \<Rightarrow> nat \<Rightarrow> (error + pointer) \<times> 'a SimpleVector" where
  "At v index =
     (if index \<ge> size_m v then (Inl OutOfRange, v)
      else if index < length (cells v) then (Inr (Pointer (raw_ptr_m (items_m v)) index), v)
      else (Inl BufferOverrun, v))"

definition At_const :: "'a SimpleVector \<Rightarrow> nat \<Rightarrow> (error + pointer) \<times> 'a SimpleVector" where
  "At_const v index =
     (if index \<ge> size_m v then (Inl OutOfRange, v)
      else if index < length (cells v) then (Inr (Pointer (raw_ptr_m (items_m v)) index), v)
      else (Inl BufferOverrun, v))"

definition Clear :: "'a SimpleVector \<Rightarrow> 'a SimpleVector" where
  "Clear v = v\<lparr>size_m := 0\<rparr>"


subsection \<open>Resize, Reserve\<close>

text \<open>\<open>Resize\<close> is three \<open>if\<close> statements in a row, none an \<open>else\<close> of another: each one
  sees the \<open>size_\<close> the one before it left.\<close>

definition Resize ::
  "'a value_type \<Rightarrow> addr \<Rightarrow> nat \<Rightarrow> 'a SimpleVector \<Rightarrow> error + 'a SimpleVector" where
  "Resize T p new_size v =
     (let v1 = (if new_size \<le> size_m v then v\<lparr>size_m := new_size\<rparr> else v) in
      and_then
        (if new_size \<le> capacity_m v1 then
           and_then (fill T (cells v1) (size_m v1) (size_m v1 + new_size)) (\<lambda>cs.
             Inr ((with_cells v1 cs)\<lparr>size_m := new_size\<rparr>))
         else Inr v1)
        (\<lambda>v2.
           if new_size > capacity_m v2 then
             (let new_capacity = max new_size (capacity_m v2 * 2);
                  temp = ArrayPtr_new T p new_capacity in
              and_then (fill T (slots temp) 0 new_capacity) (\<lambda>filled.
              and_then (std_move T (cells v2) 0 (capacity_m v2) filled 0) (\<lambda>(src, dst).
                Inr \<lparr>items_m = temp\<lparr>slots := dst\<rparr>, size_m = new_size,
                     capacity_m = new_capacity\<rparr>)))
           else Inr v2))"

definition Reserve ::
  "'a value_type \<Rightarrow> addr \<Rightarrow> nat \<Rightarrow> 'a SimpleVector \<Rightarrow> error + 'a SimpleVector" where
  "Reserve T p new_capacity v =
     (if new_capacity > capacity_m v then
        (let temp = ArrayPtr_new T p new_capacity in
         and_then (fill T (slots temp) 0 new_capacity) (\<lambda>filled.
         and_then (std_move T (cells v) 0 (size_m v) filled 0) (\<lambda>(src, dst).
           Inr (v\<lparr>items_m := temp\<lparr>slots := dst\<rparr>, capacity_m := new_capacity\<rparr>))))
      else Inr v)"

text \<open>The constructor from a \<open>ReserveProxyObj\<close>: a default vector, then \<open>Reserve\<close>.\<close>

definition SimpleVector_reserved ::
  "'a value_type \<Rightarrow> addr \<Rightarrow> nat \<Rightarrow> error + 'a SimpleVector" where
  "SimpleVector_reserved T p capacity_to_reserve =
     Reserve T p capacity_to_reserve SimpleVector_default"

subsection \<open>Insert, PushBack\<close>

text \<open>
  The \<open>assert\<close> of \<open>Insert\<close> compares \<open>pos\<close> with \<open>begin()\<close> and \<open>end()\<close>: it holds for a
  pointer into the vector's own block at an offset up to \<open>size_\<close>. The copying overload
  returns \<open>pos\<close> itself; the moving overload returns \<open>begin() + index\<close>, read after the
  insertion. The argument \<open>value\<close> of \<open>Insert\<close> is an object outside the vector's block,
  given by its value \<open>val\<close>.
\<close>

definition Insert ::
  "'a value_type \<Rightarrow> addr \<Rightarrow> pointer \<Rightarrow> 'a \<Rightarrow> 'a SimpleVector
     \<Rightarrow> error + (pointer \<times> 'a SimpleVector)" where
  "Insert T p pos val v =
     (if \<not> (block pos = block (begin_it v) \<and> offset (begin_it v) \<le> offset pos
             \<and> offset pos \<le> offset (end_it v))
      then Inl AssertionFailed
      else
        (let index = offset pos - offset (begin_it v) in
         and_then
           (if capacity_m v > size_m v then
              and_then (std_copy_backward (cells v) index (size_m v) (size_m v + 1)) (\<lambda>cs.
              and_then (store cs index val) (\<lambda>cs'.
                Inr (with_cells v cs')))
            else
              (let new_capacity = (if capacity_m v = 0 then 1 else capacity_m v * 2);
                   temp = ArrayPtr_new T p new_capacity in
               and_then (std_copy (cells v) 0 index (slots temp) 0) (\<lambda>c1.
               and_then (store c1 index val) (\<lambda>c2.
               and_then (std_copy (cells v) index (size_m v) c2 (index + 1)) (\<lambda>c3.
                 Inr (v\<lparr>items_m := temp\<lparr>slots := c3\<rparr>, capacity_m := new_capacity\<rparr>))))))
           (\<lambda>v'. Inr (pos, v'\<lparr>size_m := size_m v' + 1\<rparr>))))"

definition Insert_move ::
  "'a value_type \<Rightarrow> addr \<Rightarrow> pointer \<Rightarrow> 'a \<Rightarrow> 'a SimpleVector
     \<Rightarrow> error + (pointer \<times> 'a SimpleVector)" where
  "Insert_move T p pos val v =
     (if \<not> (block pos = block (begin_it v) \<and> offset (begin_it v) \<le> offset pos
             \<and> offset pos \<le> offset (end_it v))
      then Inl AssertionFailed
      else
        (let index = offset pos - offset (begin_it v) in
         and_then
           (if capacity_m v > size_m v then
              and_then (std_move_backward T (cells v) index (size_m v) (size_m v + 1)) (\<lambda>cs.
              and_then (store cs index val) (\<lambda>cs'.
                Inr (with_cells v cs')))
            else
              (let new_capacity = (if capacity_m v = 0 then 1 else capacity_m v * 2);
                   temp = ArrayPtr_new T p new_capacity in
               and_then (std_move T (cells v) 0 index (slots temp) 0) (\<lambda>(src1, c1).
               and_then (store c1 index val) (\<lambda>c2.
               and_then (std_move T src1 index (size_m v) c2 (index + 1)) (\<lambda>(src2, c3).
                 Inr (v\<lparr>items_m := temp\<lparr>slots := c3\<rparr>, capacity_m := new_capacity\<rparr>))))))
           (\<lambda>v'.
              (let v'' = v'\<lparr>size_m := size_m v' + 1\<rparr> in
               Inr (Pointer (block (begin_it v'')) (offset (begin_it v'') + index), v'')))))"

text \<open>
  \<open>PushBack\<close> takes its argument by reference, \<open>const Type&\<close> or \<open>Type&&\<close>, and reads it
  in its last assignment, \<open>items_[size_] = item\<close>. The reference is to an object outside
  the vector's block, given by its value, or to the slot of the vector's block at an
  index, as in \<open>v.PushBack(v[0])\<close>. When \<open>PushBack\<close> grows the vector, \<open>temp\<close> owns the old
  block after the swap and is destroyed at the end of the \<open>if\<close>, before that assignment:
  a reference into the old block is then read after the block is released. The moving
  overload leaves an element it is given moved-from; an object outside the block is not
  part of the vector, and what it is left as is not recorded.
\<close>

datatype 'a argument = Object 'a | Element nat

definition read_argument :: "'a argument \<Rightarrow> bool \<Rightarrow> 'a list \<Rightarrow> error + 'a" where
  "read_argument item released cs =
     (case item of
        Object x \<Rightarrow> Inr x
      | Element i \<Rightarrow>
          and_then (load cs i) (\<lambda>x. if released then Inl UseAfterFree else Inr x))"

definition after_move :: "'a value_type \<Rightarrow> 'a argument \<Rightarrow> 'a list \<Rightarrow> 'a list" where
  "after_move T item cs =
     (case item of
        Object x \<Rightarrow> cs
      | Element i \<Rightarrow> cs[i := moved_from T (cs ! i)])"

definition PushBack ::
  "'a value_type \<Rightarrow> addr \<Rightarrow> 'a argument \<Rightarrow> 'a SimpleVector \<Rightarrow> error + 'a SimpleVector" where
  "PushBack T p item v =
     and_then
       (if size_m v + 1 > capacity_m v then
          (let new_capacity = max (size_m v + 1) (capacity_m v * 2);
               temp = ArrayPtr_new T p new_capacity in
           and_then (std_fill (slots temp) 0 new_capacity (default_value T)) (\<lambda>filled.
           and_then (std_copy (cells v) 0 (size_m v) filled 0) (\<lambda>copied.
             Inr (v\<lparr>items_m := temp\<lparr>slots := copied\<rparr>, capacity_m := new_capacity\<rparr>, True))))
        else Inr (v, False))
       (\<lambda>(v', released).
          and_then (read_argument item released (cells v)) (\<lambda>x.
          and_then (store (cells v') (size_m v') x) (\<lambda>cs.
            Inr ((with_cells v' cs)\<lparr>size_m := size_m v' + 1\<rparr>))))"

definition PushBack_move ::
  "'a value_type \<Rightarrow> addr \<Rightarrow> 'a argument \<Rightarrow> 'a SimpleVector \<Rightarrow> error + 'a SimpleVector" where
  "PushBack_move T p item v =
     and_then
       (if size_m v + 1 > capacity_m v then
          (let new_capacity = max (size_m v + 1) (capacity_m v * 2);
               temp = ArrayPtr_new T p new_capacity in
           and_then (std_move T (cells v) 0 (size_m v) (slots temp) 0) (\<lambda>(src, dst).
             Inr (v\<lparr>items_m := temp\<lparr>slots := dst\<rparr>, capacity_m := new_capacity\<rparr>, True)))
        else Inr (v, False))
       (\<lambda>(v', released).
          and_then (read_argument item released (cells v)) (\<lambda>x.
          and_then (store (after_move T item (cells v')) (size_m v') x) (\<lambda>cs.
            Inr ((with_cells v' cs)\<lparr>size_m := size_m v' + 1\<rparr>))))"

subsection \<open>Erase, PopBack\<close>

text \<open>
  \<open>Erase\<close> takes \<open>index\<close> as the distance from \<open>cbegin()\<close> to \<open>pos\<close>, which two pointers
  into different blocks do not have. It moves \<open>[0, index)\<close> and \<open>[index + 1, size_)\<close> into a
  new block of \<open>capacity_\<close> slots. \<open>--size_\<close> comes after the second \<open>std::move\<close>, whose
  range needs \<open>index + 1 \<le> size_\<close>, so \<open>size_\<close> is positive there. \<open>PopBack\<close> asserts that
  \<open>items_\<close> is not null and calls \<open>Erase(end())\<close>.
\<close>

definition Erase ::
  "'a value_type \<Rightarrow> addr \<Rightarrow> pointer \<Rightarrow> 'a SimpleVector \<Rightarrow> error + (pointer \<times> 'a SimpleVector)" where
  "Erase T p pos v =
     (if block pos = block (begin_it v) \<and> offset (begin_it v) \<le> offset pos
      then
        (let index = offset pos - offset (begin_it v);
             temp = ArrayPtr_new T p (capacity_m v) in
         and_then (std_move T (cells v) 0 index (slots temp) 0) (\<lambda>(src1, t1).
         and_then (std_move T src1 (index + 1) (size_m v) t1 index) (\<lambda>(src2, t2).
           (let v' = v\<lparr>items_m := temp\<lparr>slots := t2\<rparr>, size_m := size_m v - 1\<rparr> in
            Inr (Pointer (raw_ptr_m (items_m v')) index, v')))))
      else Inl ForeignIterator)"

definition PopBack :: "'a value_type \<Rightarrow> addr \<Rightarrow> 'a SimpleVector \<Rightarrow> error + 'a SimpleVector" where
  "PopBack T p v =
     (if \<not> ArrayPtr_bool (items_m v) then Inl AssertionFailed
      else and_then (Erase T p (end_it v) v) (\<lambda>(it, v'). Inr v'))"

subsection \<open>Comparison\<close>

definition operator_eq :: "'a SimpleVector \<Rightarrow> 'a SimpleVector \<Rightarrow> error + bool" where
  "operator_eq lhs rhs = std_equal (cells lhs) 0 (size_m lhs) (cells rhs) 0"

definition operator_ne :: "'a SimpleVector \<Rightarrow> 'a SimpleVector \<Rightarrow> error + bool" where
  "operator_ne lhs rhs =
     and_then (std_equal (cells lhs) 0 (size_m lhs) (cells rhs) 0) (\<lambda>b. Inr (\<not> b))"

subsection \<open>The element type int, and the invariant of the data model\<close>

text \<open>\<open>int\<close> as an element type: \<open>int()\<close> is 0, a move leaves the source as it was, and a
  slot of \<open>new int[n]\<close> holds an indeterminate value, the parameter \<open>u\<close>.\<close>

definition Int_t :: "int \<Rightarrow> int value_type" where
  "Int_t u = \<lparr>default_value = 0, new_value = u, moved_from = (\<lambda>x. x)\<rparr>"

text \<open>The invariant of the data model: the size is at most the capacity, and the capacity
  is the number of slots of the block the vector holds.\<close>

definition invariant :: "'a SimpleVector \<Rightarrow> bool" where
  "invariant v = (size_m v \<le> capacity_m v \<and> capacity_m v = length (cells v))"

text \<open>A vector written out: the address and the slots of its block, \<open>size_\<close>, \<open>capacity_\<close>.\<close>

abbreviation Vec :: "addr option \<Rightarrow> 'a list \<Rightarrow> nat \<Rightarrow> nat \<Rightarrow> 'a SimpleVector" where
  "Vec a cs n c \<equiv> \<lparr>items_m = \<lparr>raw_ptr_m = a, slots = cs\<rparr>, size_m = n, capacity_m = c\<rparr>"

subsection \<open>A run of PushBack calls\<close>

text \<open>The loops of main.cpp that fill a vector: a list of calls, each of one of the two
  overloads, with the address its allocation would get and its argument. In main.cpp
  every argument is a temporary, an object outside the vector's block.\<close>

datatype 'a push = ByCopy addr "'a argument" | ByMove addr "'a argument"

fun item_of :: "'a push \<Rightarrow> 'a argument" where
  "item_of (ByCopy p item) = item"
| "item_of (ByMove p item) = item"

fun PushBack_call :: "'a value_type \<Rightarrow> 'a push \<Rightarrow> 'a SimpleVector \<Rightarrow> error + 'a SimpleVector" where
  "PushBack_call T (ByCopy p item) v = PushBack T p item v"
| "PushBack_call T (ByMove p item) v = PushBack_move T p item v"

fun PushBack_each ::
  "'a value_type \<Rightarrow> 'a push list \<Rightarrow> 'a SimpleVector \<Rightarrow> error + 'a SimpleVector" where
  "PushBack_each T [] v = Inr v"
| "PushBack_each T (c # cs) v = and_then (PushBack_call T c v) (PushBack_each T cs)"

section \<open>Properties\<close>

lemmas model_defs =
  and_then_def load_def store_def std_fill_def std_copy_def std_move_def
  std_copy_backward_def std_move_backward_def std_equal_def fill_def
  ArrayPtr_default_def ArrayPtr_new_def ArrayPtr_bool_def Get_def ArrayPtr_swap_def
  GetSize_def GetCapacity_def IsEmpty_def begin_it_def end_it_def cells_def with_cells_def
  SimpleVector_default_def SimpleVector_fill_def SimpleVector_sized_def SimpleVector_init_def
  SimpleVector_copy_def SimpleVector_swap_def SimpleVector_move_def copy_assign_def
  move_assign_def Clear_def Resize_def Reserve_def SimpleVector_reserved_def
  Insert_def Insert_move_def PushBack_def PushBack_move_def Erase_def PopBack_def
  operator_eq_def operator_ne_def Int_t_def X_def invariant_def
  read_argument_def after_move_def

subsection \<open>The loops in closed form\<close>

text \<open>A loop over a range that lies inside its blocks returns, and what it returns is
  the block with the range replaced.\<close>

lemma fill_n_closed:
  "first + n \<le> length cs \<Longrightarrow>
   fill_n n cs first x = Inr (take first cs @ replicate n x @ drop (first + n) cs)"
proof (induction n arbitrary: cs first)
  case 0
  then show ?case by simp
next
  case (Suc n)
  from Suc.prems have lt: "first < length cs" by simp
  have "fill_n (Suc n) cs first x = fill_n n (cs[first := x]) (Suc first) x"
    using lt by (simp add: store_def and_then_def)
  also have "\<dots> = Inr (take (Suc first) (cs[first := x]) @ replicate n x
                        @ drop (Suc first + n) (cs[first := x]))"
    using Suc.prems by (intro Suc.IH) simp
  also have "\<dots> = Inr (take first cs @ replicate (Suc n) x @ drop (first + Suc n) cs)"
    using lt by (simp add: take_Suc_conv_app_nth)
  finally show ?case .
qed

lemma copy_n_closed:
  "first + n \<le> length src \<Longrightarrow> d + n \<le> length dst \<Longrightarrow>
   copy_n n src first dst d = Inr (take d dst @ take n (drop first src) @ drop (d + n) dst)"
proof (induction n arbitrary: dst first d)
  case 0
  then show ?case by simp
next
  case (Suc n)
  from Suc.prems have lf: "first < length src" and ld: "d < length dst" by simp_all
  have dr: "take (Suc n) (drop first src) = src ! first # take n (drop (Suc first) src)"
    using lf by (simp add: Cons_nth_drop_Suc [symmetric])
  have "copy_n (Suc n) src first dst d = copy_n n src (Suc first) (dst[d := src ! first]) (Suc d)"
    using lf ld by (simp add: load_def store_def and_then_def)
  also have "\<dots> = Inr (take (Suc d) (dst[d := src ! first]) @ take n (drop (Suc first) src)
                        @ drop (Suc d + n) (dst[d := src ! first]))"
    using Suc.prems by (intro Suc.IH) simp_all
  also have "\<dots> = Inr (take d dst @ take (Suc n) (drop first src) @ drop (d + Suc n) dst)"
    using ld by (simp add: take_Suc_conv_app_nth dr)
  finally show ?case .
qed

lemma move_n_closed:
  "first + n \<le> length src \<Longrightarrow> d + n \<le> length dst \<Longrightarrow>
   move_n T n src first dst d
     = Inr (take first src @ map (moved_from T) (take n (drop first src)) @ drop (first + n) src,
            take d dst @ take n (drop first src) @ drop (d + n) dst)"
proof (induction n arbitrary: src dst first d)
  case 0
  then show ?case by simp
next
  case (Suc n)
  from Suc.prems have lf: "first < length src" and ld: "d < length dst" by simp_all
  let ?s = "src[first := moved_from T (src ! first)]"
  let ?d = "dst[d := src ! first]"
  have dr: "take (Suc n) (drop first src) = src ! first # take n (drop (Suc first) src)"
    using lf by (simp add: Cons_nth_drop_Suc [symmetric])
  have "move_n T (Suc n) src first dst d = move_n T n ?s (Suc first) ?d (Suc d)"
    using lf ld by (simp add: load_def store_def and_then_def)
  also have "\<dots> = Inr (take (Suc first) ?s @ map (moved_from T) (take n (drop (Suc first) ?s))
             @ drop (Suc first + n) ?s,
           take (Suc d) ?d @ take n (drop (Suc first) ?s) @ drop (Suc d + n) ?d)"
    using Suc.prems by (intro Suc.IH) simp_all
  also have "\<dots> = Inr (take first src @ map (moved_from T) (take (Suc n) (drop first src))
             @ drop (first + Suc n) src,
            take d dst @ take (Suc n) (drop first src) @ drop (d + Suc n) dst)"
    using lf ld by (simp add: take_Suc_conv_app_nth dr)
  finally show ?case .
qed


lemma std_fill_closed:
  "first \<le> lst \<Longrightarrow> lst \<le> length cs \<Longrightarrow>
   std_fill cs first lst x = Inr (take first cs @ replicate (lst - first) x @ drop lst cs)"
  by (simp add: std_fill_def fill_n_closed)

lemma fill_closed:
  "first \<le> lst \<Longrightarrow> lst \<le> length cs \<Longrightarrow>
   fill T cs first lst
     = Inr (take first cs @ replicate (lst - first) (default_value T) @ drop lst cs)"
  by (simp add: fill_def fill_n_closed)

lemma std_copy_closed:
  "first \<le> lst \<Longrightarrow> lst \<le> length src \<Longrightarrow> d + (lst - first) \<le> length dst \<Longrightarrow>
   std_copy src first lst dst d
     = Inr (take d dst @ take (lst - first) (drop first src) @ drop (d + (lst - first)) dst)"
  by (simp add: std_copy_def copy_n_closed)

lemma std_move_closed:
  "first \<le> lst \<Longrightarrow> lst \<le> length src \<Longrightarrow> d + (lst - first) \<le> length dst \<Longrightarrow>
   std_move T src first lst dst d
     = Inr (take first src @ map (moved_from T) (take (lst - first) (drop first src))
              @ drop lst src,
            take d dst @ take (lst - first) (drop first src) @ drop (d + (lst - first)) dst)"
  by (simp add: std_move_def move_n_closed)

lemma replicate_update_first:
  "m < k \<Longrightarrow> (replicate (k - m) a)[0 := b] = b # replicate (k - Suc m) a"
  by (cases "k - m") (simp_all add: Suc_diff_Suc)

subsection \<open>Copy construction\<close>

text \<open>The copy of a vector that satisfies the invariant: a block of the source's
  \<open>capacity_\<close> slots with the source's elements, the source's \<open>size_\<close>, and
  \<open>capacity_\<close> 0.\<close>

lemma SimpleVector_copy_closed:
  assumes "invariant other"
  shows "SimpleVector_copy T p other
    = Inr (Vec (if capacity_m other = 0 then None else Some p)
             (take (size_m other) (cells other)
                @ replicate (capacity_m other - size_m other) (new_value T))
             (size_m other) 0)"
proof (cases "capacity_m other = 0")
  case True
  with assms show ?thesis
    by (simp add: invariant_def SimpleVector_copy_def ArrayPtr_new_def cells_def with_cells_def
        std_copy_def and_then_def)
next
  case False
  have c: "std_copy (cells other) 0 (size_m other)
             (replicate (capacity_m other) (new_value T)) 0
    = Inr (take (size_m other) (cells other)
             @ replicate (capacity_m other - size_m other) (new_value T))"
    using assms by (simp add: invariant_def std_copy_closed)
  show ?thesis
    using False c
    by (simp add: SimpleVector_copy_def ArrayPtr_new_def cells_def with_cells_def and_then_def)
qed

text \<open>
  C1. By the specification, copy construction gives a vector with the source's size, the
  source's capacity and the source's elements. The copy constructor never sets
  \<open>capacity_\<close>: the copy of \<open>SimpleVector<int>(3, 7)\<close> has size 3, the three elements, a
  block of three slots, and capacity 0, where the source's capacity is 3.
\<close>

theorem copy_constructor_capacity:
  "SimpleVector_fill (Int_t u) 10 3 7 = Inr (Vec (Some 10) [7, 7, 7] 3 3) \<and>
   SimpleVector_copy (Int_t u) 20 (Vec (Some 10) [7, 7, 7] 3 3)
     = Inr (Vec (Some 20) [7, 7, 7] 3 0) \<and>
   GetCapacity (Vec (Some 10) [7, 7, 7 :: int] 3 3) = 3 \<and>
   GetCapacity (Vec (Some 20) [7, 7, 7 :: int] 3 0) = 0"
  by (simp add: model_defs numeral_3_eq_3)

text \<open>
  C2. By the specification, every vector that public operations produce has its size at
  most its capacity, the capacity being the number of slots of its block.
  \<open>SimpleVector<int>(1)\<close> satisfies this; its copy has size 1 and a block of one slot, and
  capacity 0.
\<close>

theorem copy_constructor_breaks_invariant:
  "SimpleVector_sized (Int_t u) 10 1 = Inr (Vec (Some 10) [0] 1 1) \<and>
   invariant (Vec (Some 10) [0 :: int] 1 1) \<and>
   SimpleVector_copy (Int_t u) 20 (Vec (Some 10) [0] 1 1) = Inr (Vec (Some 20) [0] 1 0) \<and>
   \<not> invariant (Vec (Some 20) [0 :: int] 1 0) \<and>
   \<not> GetSize (Vec (Some 20) [0 :: int] 1 0) \<le> GetCapacity (Vec (Some 20) [0 :: int] 1 0)"
  by (simp add: model_defs)

subsection \<open>Comparison\<close>

text \<open>Both operators compare the first \<open>size_\<close> slots of the left operand with the
  slots of the right operand at the same indices, when both blocks have them.\<close>

lemma equal_n_closed:
  "first1 + n \<le> length a \<Longrightarrow> first2 + n \<le> length b \<Longrightarrow>
   equal_n n a first1 b first2 = Inr (take n (drop first1 a) = take n (drop first2 b))"
proof (induction n arbitrary: first1 first2)
  case 0
  then show ?case by simp
next
  case (Suc n)
  from Suc.prems have l1: "first1 < length a" and l2: "first2 < length b" by simp_all
  have d1: "take (Suc n) (drop first1 a) = a ! first1 # take n (drop (Suc first1) a)"
    using l1 by (simp add: Cons_nth_drop_Suc [symmetric])
  have d2: "take (Suc n) (drop first2 b) = b ! first2 # take n (drop (Suc first2) b)"
    using l2 by (simp add: Cons_nth_drop_Suc [symmetric])
  have ih: "equal_n n a (Suc first1) b (Suc first2)
    = Inr (take n (drop (Suc first1) a) = take n (drop (Suc first2) b))"
    using Suc.prems by (intro Suc.IH) simp_all
  show ?case
    using l1 l2 by (simp add: load_def and_then_def d1 d2 ih)
qed

lemma operator_eq_closed:
  assumes "size_m lhs \<le> length (cells lhs)" and "size_m lhs \<le> length (cells rhs)"
  shows "operator_eq lhs rhs
           = Inr (take (size_m lhs) (cells lhs) = take (size_m lhs) (cells rhs))"
    and "operator_ne lhs rhs
           = Inr (take (size_m lhs) (cells lhs) \<noteq> take (size_m lhs) (cells rhs))"
  using assms by (simp_all add: operator_eq_def operator_ne_def std_equal_def equal_n_closed
      and_then_def)

text \<open>
  C3. By the specification, \<open>operator==\<close> holds exactly for two vectors of equal size
  with equal elements, and \<open>operator!=\<close> is its negation. \<open>operator==\<close> compares as many
  elements as the left operand has: \<open>{1} == {1, 2}\<close> is true and \<open>{1} != {1, 2}\<close> is
  false, and with the operands exchanged the comparison reads the second slot of a block
  that has one.
\<close>

theorem operator_eq_ignores_size:
  "SimpleVector_init (Int_t u) 10 [1] = Inr (Vec (Some 10) [1] 1 1) \<and>
   SimpleVector_init (Int_t u) 20 [1, 2] = Inr (Vec (Some 20) [1, 2] 2 2) \<and>
   operator_eq (Vec (Some 10) [1 :: int] 1 1) (Vec (Some 20) [1, 2] 2 2) = Inr True \<and>
   operator_ne (Vec (Some 10) [1 :: int] 1 1) (Vec (Some 20) [1, 2] 2 2) = Inr False \<and>
   operator_eq (Vec (Some 20) [1, 2 :: int] 2 2) (Vec (Some 10) [1] 1 1) = Inl BufferOverrun"
  by (simp add: model_defs numeral_2_eq_2)

subsection \<open>Move construction and move assignment\<close>

text \<open>Move assignment from a vector that satisfies the invariant: the source keeps its
  \<open>size_\<close> and \<open>capacity_\<close>, and its first \<open>size_\<close> slots are moved-from.\<close>

lemma move_assign_closed:
  assumes "invariant rhs"
  shows "move_assign T p False this rhs
    = Inr (Vec (if capacity_m rhs = 0 then None else Some p)
             (take (size_m rhs) (cells rhs)
                @ replicate (capacity_m rhs - size_m rhs) (new_value T))
             (size_m rhs) (capacity_m rhs),
           with_cells rhs
             (map (moved_from T) (take (size_m rhs) (cells rhs)) @ drop (size_m rhs) (cells rhs)))"
proof (cases "capacity_m rhs = 0")
  case True
  with assms show ?thesis
    by (simp add: invariant_def move_assign_def ArrayPtr_new_def cells_def with_cells_def
        std_move_def and_then_def GetCapacity_def GetSize_def)
next
  case False
  have m: "std_move T (cells rhs) 0 (size_m rhs) (replicate (capacity_m rhs) (new_value T)) 0
    = Inr (map (moved_from T) (take (size_m rhs) (cells rhs)) @ drop (size_m rhs) (cells rhs),
           take (size_m rhs) (cells rhs)
             @ replicate (capacity_m rhs - size_m rhs) (new_value T))"
    using assms by (simp add: invariant_def std_move_closed)
  show ?thesis
    using False m
    by (simp add: move_assign_def ArrayPtr_new_def cells_def with_cells_def and_then_def
        GetCapacity_def GetSize_def)
qed

text \<open>
  C4. By the specification, move construction and move assignment give the destination
  the source's elements and leave the source with size 0 and capacity 0. Move
  assignment from a vector of \<open>X(1), X(2)\<close> gives the destination the two elements and
  leaves the source with size 2 and capacity 2, its two elements moved-from; move
  construction from the same vector leaves the source with size 0 and capacity 0.
\<close>

theorem move_assign_keeps_source_size:
  "PushBack_each X [ByMove 10 (Object 1), ByMove 20 (Object 2)] SimpleVector_default
     = Inr (Vec (Some 20) [1, 2] 2 2) \<and>
   move_assign X 30 False SimpleVector_default (Vec (Some 20) [1, 2] 2 2)
     = Inr (Vec (Some 30) [1, 2] 2 2, Vec (Some 20) [0, 0] 2 2) \<and>
   SimpleVector_move X 30 (Vec (Some 20) [1, 2] 2 2)
     = (Vec (Some 20) [1, 2] 2 2, Vec (Some 30) [5, 5] 0 0)"
  by (simp add: model_defs numeral_2_eq_2)

subsection \<open>Resize\<close>

text \<open>When \<open>new_size \<le> capacity_\<close>, the second \<open>if\<close> of \<open>Resize\<close> fills \<open>new_size\<close> slots
  from \<open>min(size_, new_size)\<close> on: it overruns the block when they do not fit, and
  otherwise that is all \<open>Resize\<close> does besides setting \<open>size_\<close>.\<close>

lemma fill_n_overrun:
  "0 < n \<Longrightarrow> length cs < first + n \<Longrightarrow> fill_n n cs first x = Inl BufferOverrun"
proof (induction n arbitrary: cs first)
  case 0
  then show ?case by simp
next
  case (Suc n)
  show ?case
  proof (cases "first < length cs")
    case True
    with Suc.prems have "0 < n" by simp
    then have "fill_n n (cs[first := x]) (Suc first) x = Inl BufferOverrun"
      using Suc.prems by (intro Suc.IH) simp_all
    with True show ?thesis by (simp add: store_def and_then_def)
  next
    case False
    then show ?thesis by (simp add: store_def and_then_def)
  qed
qed

lemma Resize_second_if_overrun:
  assumes "new_size \<le> capacity_m v"
    and "length (cells v) < min (size_m v) new_size + new_size"
  shows "Resize T p new_size v = Inl BufferOverrun"
proof -
  from assms(2) have pos: "0 < new_size" by (cases new_size) simp_all
  show ?thesis
  proof (cases "new_size \<le> size_m v")
    case True
    with assms(2) have "length (cells v) < new_size + new_size" by (simp add: min_absorb2)
    then have "fill_n new_size (cells v) new_size (default_value T) = Inl BufferOverrun"
      using pos by (intro fill_n_overrun) simp_all
    then show ?thesis
      using True assms(1)
      by (simp add: Resize_def Let_def fill_def and_then_def cells_def)
  next
    case False
    with assms(2) have "length (cells v) < size_m v + new_size" by (simp add: min_absorb1)
    then have "fill_n new_size (cells v) (size_m v) (default_value T) = Inl BufferOverrun"
      using pos by (intro fill_n_overrun) simp_all
    then show ?thesis
      using False assms(1)
      by (simp add: Resize_def Let_def fill_def and_then_def cells_def)
  qed
qed

lemma Resize_second_if_fills:
  assumes "new_size \<le> capacity_m v"
    and "min (size_m v) new_size + new_size \<le> length (cells v)"
  shows "Resize T p new_size v
    = Inr ((with_cells v
              (take (min (size_m v) new_size) (cells v)
                 @ replicate new_size (default_value T)
                 @ drop (min (size_m v) new_size + new_size) (cells v)))
           \<lparr>size_m := new_size\<rparr>)"
proof (cases "new_size \<le> size_m v")
  case True
  with assms(2) have "new_size + new_size \<le> length (cells v)" by (simp add: min_absorb2)
  then have "fill_n new_size (cells v) new_size (default_value T)
    = Inr (take new_size (cells v) @ replicate new_size (default_value T)
             @ drop (new_size + new_size) (cells v))"
    by (rule fill_n_closed)
  then show ?thesis
    using True assms(1)
    by (simp add: Resize_def Let_def fill_def and_then_def cells_def with_cells_def min_absorb2)
next
  case False
  with assms(2) have "size_m v + new_size \<le> length (cells v)" by (simp add: min_absorb1)
  then have "fill_n new_size (cells v) (size_m v) (default_value T)
    = Inr (take (size_m v) (cells v) @ replicate new_size (default_value T)
             @ drop (size_m v + new_size) (cells v))"
    by (rule fill_n_closed)
  then show ?thesis
    using False assms(1)
    by (simp add: Resize_def Let_def fill_def and_then_def cells_def with_cells_def min_absorb1)
qed

text \<open>
  C5. By the specification, \<open>Resize(n)\<close> with \<open>n \<le> size\<close> changes the size only, and
  with \<open>size < n \<le> capacity\<close> it fills exactly the slots \<open>[size, n)\<close>. The second \<open>if\<close> of
  \<open>Resize\<close> runs in both cases and fills the \<open>n\<close> slots from the size on. On
  \<open>SimpleVector<int>(2, 7)\<close>, \<open>Resize(2)\<close> writes slots 2 and 3 of a block of two, and
  \<open>Resize(1)\<close> overwrites slot 1. On a vector of 7, 8, 9 with capacity 4, \<open>Resize(1)\<close>
  overwrites the 8; then \<open>Resize(2)\<close> fills slots 1 and 2, and \<open>Resize(4)\<close> writes slot 4
  of a block of four.
\<close>

theorem Resize_overruns:
  "SimpleVector_fill (Int_t u) 10 2 7 = Inr (Vec (Some 10) [7, 7] 2 2) \<and>
   Resize (Int_t u) 20 2 (Vec (Some 10) [7, 7] 2 2) = Inl BufferOverrun \<and>
   Resize (Int_t u) 20 1 (Vec (Some 10) [7, 7] 2 2) = Inr (Vec (Some 10) [7, 0] 1 2) \<and>
   PushBack_each (Int_t u) [ByCopy 20 (Object 7), ByCopy 30 (Object 8), ByCopy 40 (Object 9)]
       SimpleVector_default
     = Inr (Vec (Some 40) [7, 8, 9, 0] 3 4) \<and>
   Resize (Int_t u) 50 1 (Vec (Some 40) [7, 8, 9, 0] 3 4) = Inr (Vec (Some 40) [7, 0, 9, 0] 1 4) \<and>
   Resize (Int_t u) 50 2 (Vec (Some 40) [7, 0, 9, 0] 1 4) = Inr (Vec (Some 40) [7, 0, 0, 0] 2 4) \<and>
   Resize (Int_t u) 50 4 (Vec (Some 40) [7, 0, 9, 0] 1 4) = Inl BufferOverrun"
  by (simp add: model_defs numeral_2_eq_2 numeral_3_eq_3 eval_nat_numeral)

subsection \<open>Insert\<close>

text \<open>\<open>Insert\<close> into a full vector that satisfies the invariant, at any offset up to
  \<open>size_\<close>: both overloads build the same vector in the new block at \<open>p\<close>; the copying
  one returns the position in the old block, the moving one the position in the new
  block.\<close>

lemma Insert_reallocates:
  fixes T :: "'a value_type" and val :: 'a and v :: "'a SimpleVector" and index :: nat
  assumes inv: "invariant v" and full: "capacity_m v \<le> size_m v" and ix: "index \<le> size_m v"
  defines "nc \<equiv> (if capacity_m v = 0 then 1 else capacity_m v * 2)"
  defines "cs' \<equiv> take index (cells v) @ val # drop index (cells v)
                    @ replicate (nc - (size_m v + 1)) (new_value T)"
  shows "Insert T p (Pointer (raw_ptr_m (items_m v)) index) val v
           = Inr (Pointer (raw_ptr_m (items_m v)) index, Vec (Some p) cs' (size_m v + 1) nc)"
    and "Insert_move T p (Pointer (raw_ptr_m (items_m v)) index) val v
           = Inr (Pointer (Some p) index, Vec (Some p) cs' (size_m v + 1) nc)"
proof -
  let ?cs = "cells v"
  let ?new = "replicate nc (new_value T)"
  from inv full have len: "length ?cs = size_m v" and cap: "capacity_m v = size_m v"
    by (simp_all add: invariant_def)
  have nc: "size_m v < nc" using cap by (simp add: nc_def)
  let ?c1 = "take index ?cs @ replicate (nc - index) (new_value T)"
  let ?c2 = "take index ?cs @ val # replicate (nc - (index + 1)) (new_value T)"
  have c1: "std_copy ?cs 0 index ?new 0 = Inr ?c1"
    using ix len nc by (simp add: std_copy_closed)
  have m1: "std_move T ?cs 0 index ?new 0
    = Inr (map (moved_from T) (take index ?cs) @ drop index ?cs, ?c1)"
    using ix len nc by (simp add: std_move_closed)
  have c2: "store ?c1 index val = Inr ?c2"
    using ix len nc
    by (simp add: store_def list_update_append min_absorb2 replicate_update_first)
  have tk: "take (index + 1) ?c2 = take index ?cs @ [val]"
    using ix len by (simp add: min_absorb2)
  have dr: "drop (index + 1 + (size_m v - index)) ?c2 = replicate (nc - (size_m v + 1)) (new_value T)"
    using ix len nc by (simp add: min_absorb2 Suc_diff_le)
  have c3: "std_copy ?cs index (size_m v) ?c2 (index + 1) = Inr cs'"
    using ix len nc tk dr
    by (simp add: std_copy_closed cs'_def min_absorb2)
  let ?src1 = "map (moved_from T) (take index ?cs) @ drop index ?cs"
  have m3: "\<exists>src2. std_move T ?src1 index (size_m v) ?c2 (index + 1) = Inr (src2, cs')"
    using ix len nc tk dr
    by (simp add: std_move_closed cs'_def min_absorb2)
  show "Insert T p (Pointer (raw_ptr_m (items_m v)) index) val v
           = Inr (Pointer (raw_ptr_m (items_m v)) index, Vec (Some p) cs' (size_m v + 1) nc)"
    unfolding Insert_def Let_def nc_def [symmetric]
    using ix full nc c1 c2 c3
    by (simp add: begin_it_def end_it_def Get_def ArrayPtr_new_def and_then_def)
  from m3 obtain src2 where m3': "std_move T ?src1 index (size_m v) ?c2 (index + 1) = Inr (src2, cs')"
    by blast
  show "Insert_move T p (Pointer (raw_ptr_m (items_m v)) index) val v
           = Inr (Pointer (Some p) index, Vec (Some p) cs' (size_m v + 1) nc)"
    unfolding Insert_move_def Let_def nc_def [symmetric]
    using ix full nc m1 c2 m3'
    by (simp add: begin_it_def end_it_def Get_def ArrayPtr_new_def and_then_def)
qed

text \<open>
  C6. By the specification, both overloads of \<open>Insert\<close>, reallocating or not, return the
  position of the inserted element in the vector's current block. Inserting at \<open>begin()\<close>
  of the full vector \<open>SimpleVector<int>(1, 7)\<close>, whose block is at address 10, moves the
  elements to a new block at address 20. With a named object, \<open>const int five = 5;
  v.Insert(v.begin(), five)\<close>, the call is of the copying overload, which returns the
  position it was given, in the block at 10. With a temporary, \<open>v.Insert(v.begin(), 5)\<close>,
  the call is of the moving overload, which returns the first position of the block at 20.
\<close>

theorem Insert_returns_old_position:
  "SimpleVector_fill (Int_t u) 10 1 7 = Inr (Vec (Some 10) [7] 1 1) \<and>
   begin_it (Vec (Some 10) [7 :: int] 1 1) = Pointer (Some 10) 0 \<and>
   Insert (Int_t u) 20 (Pointer (Some 10) 0) 5 (Vec (Some 10) [7] 1 1)
     = Inr (Pointer (Some 10) 0, Vec (Some 20) [5, 7] 2 2) \<and>
   begin_it (Vec (Some 20) [5, 7 :: int] 2 2) = Pointer (Some 20) 0 \<and>
   Insert_move (Int_t u) 20 (Pointer (Some 10) 0) 5 (Vec (Some 10) [7] 1 1)
     = Inr (Pointer (Some 20) 0, Vec (Some 20) [5, 7] 2 2)"
  by (simp add: model_defs numeral_2_eq_2)

subsection \<open>PushBack\<close>

text \<open>When \<open>size_ + 1\<close> exceeds \<open>capacity_\<close> and the argument is an object outside the
  block, both overloads return a vector in a new block of \<open>max(size_ + 1, capacity_ * 2)\<close>
  slots: the old elements, the item, and the rest of the block as it was filled or
  allocated. When the argument is an element of the vector, they read it in the released
  block. Without growth they write the item in place. A run of calls with objects outside
  the block, from a vector whose size is at most its capacity and whose block has at
  least \<open>capacity_\<close> slots, returns with one more element per call.\<close>

lemma PushBack_grows:
  assumes "size_m v \<le> length (cells v)" and "capacity_m v < size_m v + 1"
  shows "PushBack T p (Object x) v
    = Inr (Vec (Some p)
        (take (size_m v) (cells v) @ x #
           replicate (max (size_m v + 1) (capacity_m v * 2) - (size_m v + 1)) (default_value T))
        (size_m v + 1) (max (size_m v + 1) (capacity_m v * 2)))"
proof -
  let ?nc = "max (size_m v + 1) (capacity_m v * 2)"
  have nc: "size_m v < ?nc" by simp
  have f: "std_fill (replicate ?nc (new_value T)) 0 ?nc (default_value T)
    = Inr (replicate ?nc (default_value T))"
    by (simp add: std_fill_closed)
  have c: "std_copy (cells v) 0 (size_m v) (replicate ?nc (default_value T)) 0
    = Inr (take (size_m v) (cells v) @ replicate (?nc - size_m v) (default_value T))"
    using assms(1) nc by (simp add: std_copy_closed)
  have s: "store (take (size_m v) (cells v) @ replicate (?nc - size_m v) (default_value T))
      (size_m v) x
    = Inr (take (size_m v) (cells v) @ x # replicate (?nc - (size_m v + 1)) (default_value T))"
    using assms(1) nc
    by (simp add: store_def list_update_append min_absorb2 replicate_update_first)
  show ?thesis
    using assms(2) nc f c s
    by (simp add: PushBack_def ArrayPtr_new_def Let_def and_then_def cells_def with_cells_def
        read_argument_def)
qed

lemma PushBack_move_grows:
  assumes "size_m v \<le> length (cells v)" and "capacity_m v < size_m v + 1"
  shows "PushBack_move T p (Object x) v
    = Inr (Vec (Some p)
        (take (size_m v) (cells v) @ x #
           replicate (max (size_m v + 1) (capacity_m v * 2) - (size_m v + 1)) (new_value T))
        (size_m v + 1) (max (size_m v + 1) (capacity_m v * 2)))"
proof -
  let ?nc = "max (size_m v + 1) (capacity_m v * 2)"
  have nc: "size_m v < ?nc" by simp
  have m: "std_move T (cells v) 0 (size_m v) (replicate ?nc (new_value T)) 0
    = Inr (map (moved_from T) (take (size_m v) (cells v)) @ drop (size_m v) (cells v),
           take (size_m v) (cells v) @ replicate (?nc - size_m v) (new_value T))"
    using assms(1) nc by (simp add: std_move_closed)
  have s: "store (take (size_m v) (cells v) @ replicate (?nc - size_m v) (new_value T))
      (size_m v) x
    = Inr (take (size_m v) (cells v) @ x # replicate (?nc - (size_m v + 1)) (new_value T))"
    using assms(1) nc
    by (simp add: store_def list_update_append min_absorb2 replicate_update_first)
  show ?thesis
    using assms(2) nc m s
    by (simp add: PushBack_move_def ArrayPtr_new_def Let_def and_then_def cells_def
        with_cells_def read_argument_def after_move_def)
qed

lemma PushBack_grows_element:
  assumes "size_m v \<le> length (cells v)" and "capacity_m v < size_m v + 1"
    and "i < length (cells v)"
  shows "PushBack T p (Element i) v = Inl UseAfterFree"
    and "PushBack_move T p (Element i) v = Inl UseAfterFree"
proof -
  let ?nc = "max (size_m v + 1) (capacity_m v * 2)"
  have nc: "size_m v < ?nc" by simp
  have f: "std_fill (replicate ?nc (new_value T)) 0 ?nc (default_value T)
    = Inr (replicate ?nc (default_value T))"
    by (simp add: std_fill_closed)
  have c: "std_copy (cells v) 0 (size_m v) (replicate ?nc (default_value T)) 0
    = Inr (take (size_m v) (cells v) @ replicate (?nc - size_m v) (default_value T))"
    using assms(1) nc by (simp add: std_copy_closed)
  have m: "std_move T (cells v) 0 (size_m v) (replicate ?nc (new_value T)) 0
    = Inr (map (moved_from T) (take (size_m v) (cells v)) @ drop (size_m v) (cells v),
           take (size_m v) (cells v) @ replicate (?nc - size_m v) (new_value T))"
    using assms(1) nc by (simp add: std_move_closed)
  have r: "read_argument (Element i) True (cells v) = Inl UseAfterFree"
    using assms(3) by (simp add: read_argument_def load_def and_then_def)
  show "PushBack T p (Element i) v = Inl UseAfterFree"
    using assms(2) nc f c r
    by (simp add: PushBack_def ArrayPtr_new_def Let_def and_then_def)
  show "PushBack_move T p (Element i) v = Inl UseAfterFree"
    using assms(2) nc m r
    by (simp add: PushBack_move_def ArrayPtr_new_def Let_def and_then_def)
qed

lemma PushBack_in_place:
  assumes "size_m v + 1 \<le> capacity_m v" and "size_m v < length (cells v)"
  shows "PushBack T p (Object x) v
           = Inr ((with_cells v ((cells v)[size_m v := x]))\<lparr>size_m := size_m v + 1\<rparr>)"
    and "PushBack_move T p (Object x) v
           = Inr ((with_cells v ((cells v)[size_m v := x]))\<lparr>size_m := size_m v + 1\<rparr>)"
  using assms
  by (simp_all add: PushBack_def PushBack_move_def and_then_def store_def read_argument_def
      after_move_def)

lemma PushBack_call_fits:
  assumes "size_m v \<le> capacity_m v" and "capacity_m v \<le> length (cells v)"
    and "item_of c = Object x"
  shows "\<exists>v'. PushBack_call T c v = Inr v' \<and>
           size_m v' \<le> capacity_m v' \<and> capacity_m v' \<le> length (cells v') \<and>
           size_m v' = size_m v + 1 \<and>
           take (size_m v') (cells v') = take (size_m v) (cells v) @ [x]"
proof (cases "size_m v + 1 \<le> capacity_m v")
  case True
  with assms have lt: "size_m v < length (cells v)" by simp
  show ?thesis
    using assms True lt
    by (cases c)
       (simp_all add: PushBack_in_place cells_def with_cells_def take_Suc_conv_app_nth)
next
  case False
  with assms have g: "size_m v \<le> length (cells v)" "capacity_m v < size_m v + 1"
    by simp_all
  show ?thesis
    using g assms(3)
    by (cases c) (simp_all add: PushBack_grows PushBack_move_grows cells_def)
qed

lemma PushBack_each_snoc:
  "PushBack_each T (cs @ [c]) v = and_then (PushBack_each T cs v) (PushBack_call T c)"
  by (induction cs arbitrary: v) (simp_all add: and_then_def split: sum.splits)

lemma PushBack_each_fits:
  assumes "size_m v \<le> capacity_m v" and "capacity_m v \<le> length (cells v)"
  shows "\<exists>w. PushBack_each T (map (\<lambda>(copying, p, x).
                  if copying then ByCopy p (Object x) else ByMove p (Object x)) cs) v = Inr w \<and>
           size_m w \<le> capacity_m w \<and> capacity_m w \<le> length (cells w) \<and>
           size_m w = size_m v + length cs \<and>
           take (size_m w) (cells w) = take (size_m v) (cells v) @ map (\<lambda>(copying, p, x). x) cs"
proof (induction cs rule: rev_induct)
  case Nil
  show ?case using assms by simp
next
  case (snoc c cs)
  let ?call = "\<lambda>(copying, p, x). if copying then ByCopy p (Object x) else ByMove p (Object x)"
  from snoc obtain w where w: "PushBack_each T (map ?call cs) v = Inr w"
      "size_m w \<le> capacity_m w" "capacity_m w \<le> length (cells w)"
      "size_m w = size_m v + length cs"
      "take (size_m w) (cells w) = take (size_m v) (cells v) @ map (\<lambda>(copying, p, x). x) cs"
    by blast
  obtain copying p x where c: "c = (copying, p, x)" by (cases c)
  have "item_of (?call c) = Object x" by (simp add: c)
  from PushBack_call_fits [OF w(2) w(3) this, of T]
  obtain w' where w': "PushBack_call T (?call c) w = Inr w'"
      "size_m w' \<le> capacity_m w'" "capacity_m w' \<le> length (cells w')"
      "size_m w' = size_m w + 1"
      "take (size_m w') (cells w') = take (size_m w) (cells w) @ [x]"
    by blast
  show ?case
    using w w' by (simp add: PushBack_each_snoc and_then_def c)
qed


subsection \<open>At\<close>

text \<open>
  C8. For every vector and every index \<open>i\<close>, both overloads of \<open>At\<close> throw
  \<open>std::out_of_range\<close> exactly when \<open>i \<ge> size\<close>, whatever the capacity is, and when they
  throw the vector is as it was.
\<close>

theorem At_throws_iff:
  "(fst (At v i) = Inl OutOfRange) = (size_m v \<le> i) \<and>
   (fst (At_const v i) = Inl OutOfRange) = (size_m v \<le> i) \<and>
   (size_m v \<le> i \<longrightarrow> snd (At v i) = v \<and> snd (At_const v i) = v)"
  by (simp add: At_def At_const_def)

text \<open>Index 3 of a vector of size 3 and capacity 4.\<close>

theorem At_throws_iff_witness:
  "size_m (Vec (Some 10) [7, 8, 9, 0 :: int] 3 4) \<le> 3 \<and>
   3 < capacity_m (Vec (Some 10) [7, 8, 9, 0 :: int] 3 4) \<and>
   At (Vec (Some 10) [7, 8, 9, 0 :: int] 3 4) 3
     = (Inl OutOfRange, Vec (Some 10) [7, 8, 9, 0] 3 4) \<and>
   At_const (Vec (Some 10) [7, 8, 9, 0 :: int] 3 4) 3
     = (Inl OutOfRange, Vec (Some 10) [7, 8, 9, 0] 3 4)"
  using At_throws_iff [of "Vec (Some 10) [7, 8, 9, 0 :: int] 3 4" 3]
  by (simp add: prod_eq_iff)

subsection \<open>PopBack\<close>

text \<open>
  \<open>PopBack\<close> passes \<open>end()\<close> to \<open>Erase\<close>, so \<open>index\<close> is \<open>size_\<close> and the second
  \<open>std::move\<close> of \<open>Erase\<close> is given \<open>first = begin() + size_ + 1\<close> and
  \<open>last = begin() + size_\<close>, for every vector. The only other outcomes are the failed
  assertion, when the block is null, and an overrun in the first \<open>std::move\<close>.
\<close>

lemma move_n_error:
  "move_n T n src first dst d = Inl e \<Longrightarrow> e = BufferOverrun"
  by (induction n arbitrary: src first dst d)
     (auto simp: and_then_def load_def store_def split: if_splits)

lemma Erase_at_end:
  "Erase T p (end_it v) v = Inl InvalidRange \<or> Erase T p (end_it v) v = Inl BufferOverrun"
proof (cases "std_move T (cells v) 0 (size_m v) (slots (ArrayPtr_new T p (capacity_m v))) 0")
  case (Inl e)
  then have "e = BufferOverrun"
    by (simp add: std_move_def move_n_error)
  with Inl show ?thesis
    by (simp add: Erase_def end_it_def begin_it_def Get_def and_then_def)
next
  case (Inr r)
  then show ?thesis
    by (cases r) (simp add: Erase_def end_it_def begin_it_def Get_def and_then_def std_move_def)
qed

lemma PopBack_never_returns:
  "PopBack T p v = Inl AssertionFailed \<and> raw_ptr_m (items_m v) = None
   \<or> PopBack T p v = Inl InvalidRange \<and> raw_ptr_m (items_m v) \<noteq> None
   \<or> PopBack T p v = Inl BufferOverrun \<and> raw_ptr_m (items_m v) \<noteq> None"
  using Erase_at_end [of T p v]
  by (auto simp: PopBack_def ArrayPtr_bool_def and_then_def)

text \<open>
  C9. By the specification, \<open>PopBack\<close> on an empty vector fails an assertion, whatever
  the capacity is. The assertion is \<open>assert(items_)\<close>: it fails on a default-constructed vector, and on
  a cleared or a reserved vector, whose block is not null, it passes and \<open>Erase(end())\<close>
  runs, handing \<open>std::move\<close> the range from \<open>begin() + 1\<close> to \<open>begin()\<close>.
\<close>

theorem PopBack_assert_passes_on_empty:
  "SimpleVector_fill (Int_t u) 10 1 7 = Inr (Vec (Some 10) [7] 1 1) \<and>
   Clear (Vec (Some 10) [7 :: int] 1 1) = Vec (Some 10) [7] 0 1 \<and>
   IsEmpty (Vec (Some 10) [7 :: int] 0 1) \<and>
   PopBack (Int_t u) 20 (Vec (Some 10) [7] 0 1) = Inl InvalidRange \<and>
   SimpleVector_reserved (Int_t u) 30 2 = Inr (Vec (Some 30) [0, 0] 0 2) \<and>
   IsEmpty (Vec (Some 30) [0, 0 :: int] 0 2) \<and>
   PopBack (Int_t u) 40 (Vec (Some 30) [0, 0] 0 2) = Inl InvalidRange \<and>
   PopBack (Int_t u) 50 SimpleVector_default = Inl AssertionFailed"
  by (simp add: model_defs numeral_2_eq_2)

subsection \<open>Writes stay inside the block\<close>

text \<open>
  C10. By the specification, every write of a public operation goes to a slot of the block
  written.
  \<open>Resize(1)\<close> on \<open>SimpleVector<int>(1)\<close> fills from \<open>begin() + 1\<close> to \<open>begin() + 2\<close>: it
  writes slot 1 of a block of one slot.
\<close>

theorem Resize_writes_past_the_block:
  "SimpleVector_sized (Int_t u) 10 1 = Inr (Vec (Some 10) [0] 1 1) \<and>
   Resize (Int_t u) 20 1 (Vec (Some 10) [0] 1 1) = Inl BufferOverrun \<and>
   fill (Int_t u) [0] 1 2 = Inl BufferOverrun \<and>
   store [0 :: int] 1 0 = Inl BufferOverrun"
  by (simp add: model_defs)

end
